theory Spec2Isabelle
  imports Main
begin

section \<open>Social Media Downloader API: a shallow embedding of \<^verbatim>\<open>api/main.py\<close>\<close>

text \<open>
  The service has one working endpoint, \<^verbatim>\<open>POST /api/download\<close>. Its handler
  \<^verbatim>\<open>download_media\<close> lower-cases and validates the requested format, detects the
  platform from the URL's network location, looks the platform's handler up in
  \<^verbatim>\<open>PLATFORM_HANDLERS\<close> and returns the dictionary that handler builds. Every
  exception raised on the way is an explicit value here, and the one ambient state the
  code writes, the module's logger, is a list of records that every function that logs
  takes and returns.

  Python strings are modelled as \<^typ>\<open>string\<close>, one \<^typ>\<open>char\<close> per character; the
  case conversions below are those of the ASCII letters.
\<close>

subsection \<open>Python string operations\<close>

text \<open>\<^verbatim>\<open>sub in s\<close> on strings: \<^verbatim>\<open>sub\<close> occurs in \<^verbatim>\<open>s\<close> as a contiguous run.\<close>

fun starts_with :: "string \<Rightarrow> string \<Rightarrow> bool" where
  "starts_with [] s = True"
| "starts_with (c # cs) [] = False"
| "starts_with (c # cs) (d # ds) = (c = d \<and> starts_with cs ds)"

fun py_in :: "string \<Rightarrow> string \<Rightarrow> bool" where
  "py_in sub [] = (sub = [])"
| "py_in sub (c # cs) = (starts_with sub (c # cs) \<or> py_in sub cs)"

definition ascii_uppercase :: string where
  "ascii_uppercase = ''ABCDEFGHIJKLMNOPQRSTUVWXYZ''"

definition ascii_lowercase :: string where
  "ascii_lowercase = ''abcdefghijklmnopqrstuvwxyz''"

definition digit_chars :: string where
  "digit_chars = ''0123456789''"

definition lower_char :: "char \<Rightarrow> char" where
  "lower_char c =
     (case map_of (zip ascii_uppercase ascii_lowercase) c of Some d \<Rightarrow> d | None \<Rightarrow> c)"

definition upper_char :: "char \<Rightarrow> char" where
  "upper_char c =
     (case map_of (zip ascii_lowercase ascii_uppercase) c of Some d \<Rightarrow> d | None \<Rightarrow> c)"

text \<open>\<^verbatim>\<open>s.lower()\<close> and \<^verbatim>\<open>s.capitalize()\<close>.\<close>

definition lower :: "string \<Rightarrow> string" where
  "lower s = map lower_char s"

definition capitalize :: "string \<Rightarrow> string" where
  "capitalize s = (case s of [] \<Rightarrow> [] | c # cs \<Rightarrow> upper_char c # map lower_char cs)"

text \<open>\<^verbatim>\<open>str(n)\<close> of a non-negative integer, in decimal.\<close>

fun str_nat :: "nat \<Rightarrow> string" where
  "str_nat n =
     (if n < 10 then [digit_chars ! n]
      else str_nat (n div 10) @ [digit_chars ! (n mod 10)])"

declare str_nat.simps [simp del]

subsection \<open>Exceptions, log records and response values\<close>

datatype exc =
    HTTPException nat string
  | ValueError string
  | AttributeError string

text \<open>
  \<^verbatim>\<open>str(e)\<close>: the message of a built-in exception, and Starlette's rendering
  \<^verbatim>\<open>"{status_code}: {detail}"\<close> of an \<^verbatim>\<open>HTTPException\<close>.
\<close>

fun str_exc :: "exc \<Rightarrow> string" where
  "str_exc (HTTPException status_code detail) = str_nat status_code @ '': '' @ detail"
| "str_exc (ValueError msg) = msg"
| "str_exc (AttributeError msg) = msg"

datatype log_record = INFO string | ERROR string

type_synonym log = "log_record list"

text \<open>The values the handlers put in their dictionaries: a string, \<^verbatim>\<open>None\<close> or a list of strings.\<close>

datatype pyval = PStr string | PNone | PList "string list"

text \<open>A response dictionary, in insertion order.\<close>

type_synonym response = "(string \<times> pyval) list"

subsection \<open>The network location of a URL\<close>

text \<open>
  \<^verbatim>\<open>urlparse(url).netloc\<close> of the standard library (\<^verbatim>\<open>urllib.parse.urlsplit\<close>):
  leading control characters and spaces are stripped, tabs and line breaks removed, a
  leading scheme and its colon are split off, and when the rest starts with \<^verbatim>\<open>//\<close> the
  network location runs from there to the first \<^verbatim>\<open>/\<close>, \<^verbatim>\<open>?\<close> or \<^verbatim>\<open>#\<close>; otherwise it is
  empty. A network location with one square bracket and not the other raises
  \<^verbatim>\<open>ValueError\<close>. The library's further validation, of the literal between two brackets
  and of a non-ASCII network location, depends on the interpreter's version and on
  Unicode tables: it is the parameter \<open>check_netloc\<close>, which returns the message of the
  \<^verbatim>\<open>ValueError\<close> it raises, if any, and is consulted for no other network location.
\<close>

definition scheme_chars :: string where
  "scheme_chars = ascii_lowercase @ ascii_uppercase @ digit_chars @ ''+-.''"

definition is_c0_control_or_space :: "char \<Rightarrow> bool" where
  "is_c0_control_or_space c = ((of_char c :: nat) \<le> 32)"

definition is_unsafe_url_byte :: "char \<Rightarrow> bool" where
  "is_unsafe_url_byte c = (c \<in> set [CHR 0x09, CHR 0x0D, CHR 0x0A])"

definition isascii :: "string \<Rightarrow> bool" where
  "isascii s = list_all (\<lambda>c. (of_char c :: nat) < 128) s"

definition split_scheme :: "string \<Rightarrow> string" where
  "split_scheme url =
     (let head = takeWhile (\<lambda>c. c \<noteq> CHR '':'') url in
      if CHR '':'' \<in> set url \<and> head \<noteq> []
         \<and> hd head \<in> set (ascii_lowercase @ ascii_uppercase)
         \<and> list_all (\<lambda>c. c \<in> set scheme_chars) head
      then drop (length head + 1) url
      else url)"

definition splitnetloc :: "string \<Rightarrow> string" where
  "splitnetloc url = takeWhile (\<lambda>c. c \<notin> set ''/?#'') (drop 2 url)"

definition urlparse_netloc :: "(string \<Rightarrow> string option) \<Rightarrow> string \<Rightarrow> exc + string" where
  "urlparse_netloc check_netloc url =
     (let url1 = dropWhile is_c0_control_or_space url;
          url2 = filter (\<lambda>c. \<not> is_unsafe_url_byte c) url1;
          url3 = split_scheme url2
      in if take 2 url3 = ''//'' then
           (let netloc = splitnetloc url3;
                lb = (CHR ''['' \<in> set netloc);
                rb = (CHR '']'' \<in> set netloc)
            in if (lb \<and> \<not> rb) \<or> (rb \<and> \<not> lb) then Inl (ValueError ''Invalid IPv6 URL'')
               else if (lb \<and> rb) \<or> \<not> isascii netloc then
                 (case check_netloc netloc of
                    Some msg \<Rightarrow> Inl (ValueError msg)
                  | None \<Rightarrow> Inr netloc)
               else Inr netloc)
         else Inr [])"

subsection \<open>Platform patterns and detection\<close>

text \<open>
  Each pattern of \<^verbatim>\<open>PLATFORM_PATTERNS\<close> is one group of literal alternatives (a
  backslash-escaped dot matches a dot), so it is kept as the list of its alternatives,
  and \<^verbatim>\<open>pattern.search(domain)\<close> finds a match exactly when one of them occurs
  somewhere in \<^verbatim>\<open>domain\<close>. The dictionary is an association list in insertion order,
  the order in which \<^verbatim>\<open>.items()\<close> iterates.
\<close>

type_synonym pattern = "string list"

fun search :: "pattern \<Rightarrow> string \<Rightarrow> bool" where
  "search [] domain = False"
| "search (alt # alts) domain = (py_in alt domain \<or> search alts domain)"

definition PLATFORM_PATTERNS :: "(string \<times> pattern) list" where
  "PLATFORM_PATTERNS =
     [(''instagram'', [''instagram.com'', ''instagr.am'']),
      (''tiktok'', [''tiktok.com'', ''vm.tiktok.com'']),
      (''facebook'', [''facebook.com'', ''fb.com'', ''fb.watch'']),
      (''youtube'', [''youtube.com'', ''youtu.be''])]"

text \<open>The loop of \<^verbatim>\<open>detect_platform\<close> over a table: the first platform whose pattern matches.\<close>

fun first_match :: "(string \<times> pattern) list \<Rightarrow> string \<Rightarrow> string option" where
  "first_match [] domain = None"
| "first_match ((platform, pat) # rest) domain =
     (if search pat domain then Some platform else first_match rest domain)"

definition detect_platform :: "(string \<Rightarrow> string option) \<Rightarrow> string \<Rightarrow> exc + string" where
  "detect_platform check_netloc url =
     (case urlparse_netloc check_netloc url of
        Inl e \<Rightarrow> Inl e
      | Inr domain \<Rightarrow>
          (case first_match PLATFORM_PATTERNS domain of
             Some platform \<Rightarrow> Inr platform
           | None \<Rightarrow> Inl (ValueError (''Unsupported platform for URL: '' @ url))))"

subsection \<open>Platform handlers\<close>

text \<open>
  Each handler logs the URL and returns a fixed dictionary, in which only the content
  type read off the URL and the requested format vary.
\<close>

definition instagram_content_type :: "string \<Rightarrow> string" where
  "instagram_content_type url =
     (if py_in ''reel'' url then ''reel'' else if py_in ''p/'' url then ''post'' else ''story'')"

definition instagram_handler :: "string \<Rightarrow> string \<Rightarrow> log \<Rightarrow> response \<times> log" where
  "instagram_handler url format lg =
     (let content_type = instagram_content_type url in
      ([(''status'', PStr ''success''),
        (''platform'', PStr ''Instagram''),
        (''media_type'',
           PStr (if content_type \<in> set [''reel'', ''story''] then ''video'' else ''image'')),
        (''download_url'',
           PStr (''https://api.example.com/downloads/instagram/'' @ content_type
                 @ ''_processed.'' @ format)),
        (''thumbnail'', PStr ''https://api.example.com/thumbnails/instagram_thumbnail.jpg''),
        (''title'', PStr (''Instagram '' @ capitalize content_type)),
        (''duration'',
           if content_type \<in> set [''reel'', ''story''] then PStr ''15s'' else PNone)],
       lg @ [INFO (''Processing Instagram URL: '' @ url)]))"

definition tiktok_handler :: "string \<Rightarrow> string \<Rightarrow> log \<Rightarrow> response \<times> log" where
  "tiktok_handler url format lg =
     ([(''status'', PStr ''success''),
       (''platform'', PStr ''TikTok''),
       (''media_type'', PStr ''video''),
       (''download_url'',
          PStr (''https://api.example.com/downloads/tiktok/video_nowatermark.'' @ format)),
       (''thumbnail'', PStr ''https://api.example.com/thumbnails/tiktok_thumbnail.jpg''),
       (''title'', PStr ''TikTok Video''),
       (''duration'', PStr ''30s''),
       (''audio_url'',
          if format = ''mp3'' then PStr ''https://api.example.com/downloads/tiktok/audio.mp3''
          else PNone)],
      lg @ [INFO (''Processing TikTok URL: '' @ url)])"

definition facebook_content_type :: "string \<Rightarrow> string" where
  "facebook_content_type url =
     (if py_in ''reel'' url then ''reel'' else if py_in ''story'' url then ''story'' else ''post'')"

definition facebook_handler :: "string \<Rightarrow> string \<Rightarrow> log \<Rightarrow> response \<times> log" where
  "facebook_handler url format lg =
     (let content_type = facebook_content_type url in
      ([(''status'', PStr ''success''),
        (''platform'', PStr ''Facebook''),
        (''media_type'',
           PStr (if content_type \<in> set [''reel'', ''story''] then ''video'' else ''image'')),
        (''download_url'',
           PStr (''https://api.example.com/downloads/facebook/'' @ content_type @ ''.'' @ format)),
        (''thumbnail'', PStr ''https://api.example.com/thumbnails/facebook_thumbnail.jpg''),
        (''title'', PStr (''Facebook '' @ capitalize content_type)),
        (''duration'',
           if content_type \<in> set [''reel'', ''story''] then PStr ''60s'' else PNone)],
       lg @ [INFO (''Processing Facebook URL: '' @ url)]))"

definition youtube_content_type :: "string \<Rightarrow> string" where
  "youtube_content_type url = (if py_in ''shorts'' url then ''short'' else ''video'')"

definition youtube_handler :: "string \<Rightarrow> string \<Rightarrow> log \<Rightarrow> response \<times> log" where
  "youtube_handler url format lg =
     (let content_type = youtube_content_type url in
      ([(''status'', PStr ''success''),
        (''platform'', PStr ''YouTube''),
        (''media_type'', PStr ''video''),
        (''download_url'',
           PStr (''https://api.example.com/downloads/youtube/'' @ content_type @ ''.'' @ format)),
        (''thumbnail'', PStr ''https://api.example.com/thumbnails/youtube_thumbnail.jpg''),
        (''title'', PStr (''YouTube '' @ capitalize content_type)),
        (''duration'', PStr (if content_type = ''short'' then ''30s'' else ''5m'')),
        (''available_formats'', PList [''144p'', ''240p'', ''360p'', ''480p'', ''720p'', ''1080p''])],
       lg @ [INFO (''Processing YouTube URL: '' @ url)]))"

type_synonym handler = "string \<Rightarrow> string \<Rightarrow> log \<Rightarrow> response \<times> log"

definition PLATFORM_HANDLERS :: "(string \<times> handler) list" where
  "PLATFORM_HANDLERS =
     [(''instagram'', instagram_handler),
      (''tiktok'', tiktok_handler),
      (''facebook'', facebook_handler),
      (''youtube'', youtube_handler)]"

subsection \<open>The endpoint\<close>

text \<open>
  The request body after validation: \<open>url\<close> is the text \<^verbatim>\<open>str(download_req.url)\<close>
  of the validated URL, \<open>format\<close> is optional (\<^verbatim>\<open>"mp4"\<close> when the field is left out,
  \<^verbatim>\<open>None\<close> when it is sent as null).
\<close>

record DownloadRequest =
  url :: string
  format :: "string option"

text \<open>
  The body of the \<^verbatim>\<open>try\<close> block. Calling \<^verbatim>\<open>.lower()\<close> on \<^verbatim>\<open>None\<close> raises
  \<^verbatim>\<open>AttributeError\<close>; the inner \<^verbatim>\<open>except ValueError\<close> turns the failure of
  \<^verbatim>\<open>detect_platform\<close> into an \<^verbatim>\<open>HTTPException\<close> with status 400.
\<close>

definition download_media_try ::
  "(string \<Rightarrow> string option) \<Rightarrow> DownloadRequest \<Rightarrow> log \<Rightarrow> (exc + response) \<times> log" where
  "download_media_try check_netloc download_req lg =
     (case DownloadRequest.format download_req of
        None \<Rightarrow>
          (Inl (AttributeError
                 ('''NoneType' object has no attribute 'lower'' @ [CHR 0x27])), lg)
      | Some f \<Rightarrow>
          (let fmt = lower f in
           if fmt \<notin> set [''mp4'', ''mp3''] then
             (Inl (HTTPException 400 ''Invalid format. Supported formats: mp4, mp3''), lg)
           else
             (case detect_platform check_netloc (DownloadRequest.url download_req) of
                Inl (ValueError msg) \<Rightarrow> (Inl (HTTPException 400 msg), lg)
              | Inl e \<Rightarrow> (Inl e, lg)
              | Inr platform \<Rightarrow>
                  (case map_of PLATFORM_HANDLERS platform of
                     None \<Rightarrow>
                       (Inl (HTTPException 501
                              (''Handler for platform '' @ [CHR 0x27] @ platform @ [CHR 0x27]
                               @ '' not implemented'')), lg)
                   | Some handler \<Rightarrow>
                       (case handler (DownloadRequest.url download_req) fmt lg of
                          (result, lg') \<Rightarrow> (Inr result, lg'))))))"

text \<open>
  The endpoint: the trailing \<^verbatim>\<open>except Exception\<close> catches whatever the body raised,
  \<^verbatim>\<open>HTTPException\<close> included (it derives from \<^verbatim>\<open>Exception\<close>), logs it and raises an
  \<^verbatim>\<open>HTTPException\<close> with status 500. The rate limiter that decorates the endpoint acts
  before this function is entered and is not part of it.
\<close>

definition download_media ::
  "(string \<Rightarrow> string option) \<Rightarrow> DownloadRequest \<Rightarrow> log \<Rightarrow> (exc + response) \<times> log" where
  "download_media check_netloc download_req lg =
     (case download_media_try check_netloc download_req lg of
        (Inr result, lg') \<Rightarrow> (Inr result, lg')
      | (Inl e, lg') \<Rightarrow>
          (Inl (HTTPException 500 (''Error processing request: '' @ str_exc e)),
           lg' @ [ERROR (''Error processing request: '' @ str_exc e)]))"

text \<open>
  The status of the HTTP response the framework sends: 200 with the returned dictionary
  as its body, the status code of a raised \<^verbatim>\<open>HTTPException\<close>, 500 for any other
  exception.
\<close>

fun http_status :: "exc + response \<Rightarrow> nat" where
  "http_status (Inr result) = 200"
| "http_status (Inl (HTTPException status_code detail)) = status_code"
| "http_status (Inl e) = 500"

text \<open>The keys of a dictionary, in insertion order.\<close>

definition keys :: "response \<Rightarrow> string list" where
  "keys d = map fst d"

section \<open>Properties\<close>

subsection \<open>Facts shared by the proofs\<close>

lemmas netloc_defs = urlparse_netloc_def split_scheme_def splitnetloc_def
  is_c0_control_or_space_def is_unsafe_url_byte_def isascii_def scheme_chars_def
  ascii_lowercase_def ascii_uppercase_def digit_chars_def

lemmas handler_defs = instagram_handler_def instagram_content_type_def
  tiktok_handler_def facebook_handler_def facebook_content_type_def
  youtube_handler_def youtube_content_type_def
  capitalize_def upper_char_def lower_char_def ascii_lowercase_def ascii_uppercase_def

lemma first_match_None_iff:
  "first_match tbl d = None \<longleftrightarrow> (\<forall>e\<in>set tbl. \<not> search (snd e) d)"
  by (induction tbl) (auto split: if_splits)

lemma first_match_Some_mem:
  "first_match tbl d = Some q \<Longrightarrow> \<exists>pat. (q, pat) \<in> set tbl \<and> search pat d"
  by (induction tbl) (auto split: if_splits)

lemma first_match_Some_split:
  "first_match tbl d = Some q \<Longrightarrow>
     \<exists>before pat after. tbl = before @ (q, pat) # after \<and> search pat d
        \<and> (\<forall>e\<in>set before. \<not> search (snd e) d)"
proof (induction tbl)
  case Nil
  then show ?case by simp
next
  case (Cons e tbl)
  obtain p pat where e: "e = (p, pat)" by (cases e)
  show ?case
  proof (cases "search pat d")
    case True
    with Cons.prems e have "q = p" by simp
    with True e have "e # tbl = [] @ (q, pat) # tbl \<and> search pat d
        \<and> (\<forall>x\<in>set []. \<not> search (snd x) d)" by simp
    then show ?thesis by blast
  next
    case False
    with Cons.prems e have "first_match tbl d = Some q" by simp
    then obtain before pat' after where
      "tbl = before @ (q, pat') # after" "search pat' d"
      "\<forall>x\<in>set before. \<not> search (snd x) d"
      using Cons.IH by blast
    with False e have "e # tbl = (e # before) @ (q, pat') # after \<and> search pat' d
        \<and> (\<forall>x\<in>set (e # before). \<not> search (snd x) d)" by simp
    then show ?thesis by blast
  qed
qed

lemma first_match_platforms:
  assumes "first_match PLATFORM_PATTERNS d = Some q"
  shows "q \<in> {''instagram'', ''tiktok'', ''facebook'', ''youtube''}"
proof -
  from assms obtain pat where "(q, pat) \<in> set PLATFORM_PATTERNS"
    using first_match_Some_mem by blast
  then show ?thesis by (auto simp: PLATFORM_PATTERNS_def)
qed

lemma detect_platform_Inr:
  "detect_platform chk u = Inr q \<longleftrightarrow>
     (\<exists>d. urlparse_netloc chk u = Inr d \<and> first_match PLATFORM_PATTERNS d = Some q)"
  by (auto simp: detect_platform_def split: sum.splits option.splits)

lemma handlers_of_platform:
  "q \<in> {''instagram'', ''tiktok'', ''facebook'', ''youtube''} \<Longrightarrow>
     map_of PLATFORM_HANDLERS q =
       Some (if q = ''instagram'' then instagram_handler
             else if q = ''tiktok'' then tiktok_handler
             else if q = ''facebook'' then facebook_handler
             else youtube_handler)"
  by (auto simp: PLATFORM_HANDLERS_def)

lemma handler_result_indep:
  "map_of PLATFORM_HANDLERS q = Some h \<Longrightarrow> fst (h u fmt lg1) = fst (h u fmt lg2)"
  by (auto simp: PLATFORM_HANDLERS_def instagram_handler_def tiktok_handler_def
      facebook_handler_def youtube_handler_def Let_def split: if_splits)

lemma download_media_try_indep:
  "fst (download_media_try chk req lg1) = fst (download_media_try chk req lg2)"
  using handler_result_indep
  by (auto simp: download_media_try_def Let_def
      split: option.splits sum.splits exc.splits prod.splits)
     (metis fst_conv)+

lemma download_media_fst:
  "fst (download_media chk req lg) =
     (case fst (download_media_try chk req lg) of
        Inr result \<Rightarrow> Inr result
      | Inl e \<Rightarrow> Inl (HTTPException 500 (''Error processing request: '' @ str_exc e)))"
  by (simp add: download_media_def split: prod.splits sum.splits)

lemma download_media_try_Inr:
  assumes "fst (download_media_try chk req lg) = Inr r"
  shows "\<exists>f q h. DownloadRequest.format req = Some f
           \<and> lower f \<in> set [''mp4'', ''mp3'']
           \<and> detect_platform chk (url req) = Inr q
           \<and> map_of PLATFORM_HANDLERS q = Some h
           \<and> r = fst (h (url req) (lower f) lg)"
proof (cases "DownloadRequest.format req")
  case None
  with assms show ?thesis by (simp add: download_media_try_def)
next
  case (Some f)
  show ?thesis
  proof (cases "lower f \<in> set [''mp4'', ''mp3'']")
    case False
    with Some assms show ?thesis by (simp add: download_media_try_def Let_def)
  next
    case True
    show ?thesis
    proof (cases "detect_platform chk (url req)")
      case (Inl e)
      with Some True assms show ?thesis
        by (cases e) (simp_all add: download_media_try_def Let_def del: set_simps)
    next
      case (Inr q)
      show ?thesis
      proof (cases "map_of PLATFORM_HANDLERS q")
        case None
        with Some True Inr assms show ?thesis
          by (simp add: download_media_try_def Let_def del: set_simps)
      next
        case (Some h)
        with \<open>DownloadRequest.format req = Some f\<close> True Inr assms
        have "r = fst (h (url req) (lower f) lg)"
          by (simp add: download_media_try_def Let_def split: prod.splits del: set_simps)
        with \<open>DownloadRequest.format req = Some f\<close> True Inr Some show ?thesis by blast
      qed
    qed
  qed
qed

subsection \<open>The TikTok scenario\<close>

text \<open>
  Claim C7. For the request with URL \<^verbatim>\<open>https://www.tiktok.com/@user/video/123\<close> and
  format \<^verbatim>\<open>mp4\<close>, the URL is classified as TikTok and the endpoint answers with
  status 200 and a success dictionary whose platform is TikTok, whose media type is
  video and which carries the download URL, whatever the logger held before.
\<close>

theorem tiktok_scenario:
  "detect_platform chk ''https://www.tiktok.com/@user/video/123'' = Inr ''tiktok''
   \<and> fst (download_media chk
        \<lparr>url = ''https://www.tiktok.com/@user/video/123'', format = Some ''mp4''\<rparr> lg) =
       Inr [(''status'', PStr ''success''),
            (''platform'', PStr ''TikTok''),
            (''media_type'', PStr ''video''),
            (''download_url'',
               PStr ''https://api.example.com/downloads/tiktok/video_nowatermark.mp4''),
            (''thumbnail'', PStr ''https://api.example.com/thumbnails/tiktok_thumbnail.jpg''),
            (''title'', PStr ''TikTok Video''),
            (''duration'', PStr ''30s''),
            (''audio_url'', PNone)]
   \<and> http_status (fst (download_media chk
        \<lparr>url = ''https://www.tiktok.com/@user/video/123'', format = Some ''mp4''\<rparr> lg)) = 200"
proof -
  have n: "urlparse_netloc chk ''https://www.tiktok.com/@user/video/123'' = Inr ''www.tiktok.com''"
    by (simp add: netloc_defs)
  have d: "detect_platform chk ''https://www.tiktok.com/@user/video/123'' = Inr ''tiktok''"
    by (simp add: detect_platform_def n PLATFORM_PATTERNS_def)
  have l: "lower ''mp4'' = ''mp4''"
    by (simp add: lower_def lower_char_def ascii_lowercase_def ascii_uppercase_def)
  show ?thesis
    by (simp add: d l download_media_fst download_media_try_def PLATFORM_HANDLERS_def
        tiktok_handler_def)
qed

subsection \<open>Detection of a matching host\<close>

text \<open>
  Claim C1 (as amended). For every URL whose network location is extracted and matches
  the pattern of at least one platform, \<^verbatim>\<open>detect_platform\<close> does not fail, whatever
  the rest of the URL is: it returns the first platform, in the order of the table,
  whose pattern matches, and no pattern before it matches. That is the platform the
  host matched whenever no other platform's pattern matches as well.
\<close>

theorem detect_platform_matching_host:
  assumes "urlparse_netloc chk u = Inr d"
    and "(p, pat) \<in> set PLATFORM_PATTERNS"
    and "search pat d"
  shows "\<exists>q pat' before after.
           detect_platform chk u = Inr q
         \<and> PLATFORM_PATTERNS = before @ (q, pat') # after
         \<and> search pat' d
         \<and> (\<forall>e\<in>set before. \<not> search (snd e) d)
         \<and> ((\<forall>e\<in>set PLATFORM_PATTERNS. search (snd e) d \<longrightarrow> fst e = p) \<longrightarrow> q = p)"
proof -
  from assms(2,3) have "\<exists>e\<in>set PLATFORM_PATTERNS. search (snd e) d"
    by force
  then have "first_match PLATFORM_PATTERNS d \<noteq> None"
    by (simp add: first_match_None_iff)
  then obtain q where q: "first_match PLATFORM_PATTERNS d = Some q" by blast
  from first_match_Some_split [OF q] obtain before pat' after where
    s: "PLATFORM_PATTERNS = before @ (q, pat') # after" "search pat' d"
       "\<forall>e\<in>set before. \<not> search (snd e) d"
    by blast
  have det: "detect_platform chk u = Inr q"
    using assms(1) q by (simp add: detect_platform_def)
  have mem: "(q, pat') \<in> set PLATFORM_PATTERNS"
    by (subst s(1)) simp
  have only: "(\<forall>e\<in>set PLATFORM_PATTERNS. search (snd e) d \<longrightarrow> fst e = p) \<longrightarrow> q = p"
    using mem s(2) by fastforce
  from det s only show ?thesis by blast
qed

theorem detect_platform_matching_host_witness:
  "urlparse_netloc (\<lambda>netloc. None) ''https://www.instagram.com/p/abc/'' = Inr ''www.instagram.com''
   \<and> (''instagram'', [''instagram.com'', ''instagr.am'']) \<in> set PLATFORM_PATTERNS
   \<and> search [''instagram.com'', ''instagr.am''] ''www.instagram.com''
   \<and> detect_platform (\<lambda>netloc. None) ''https://www.instagram.com/p/abc/'' = Inr ''instagram''"
proof -
  have n: "urlparse_netloc (\<lambda>netloc. None) ''https://www.instagram.com/p/abc/''
             = Inr ''www.instagram.com''"
    by (simp add: netloc_defs)
  have m: "(''instagram'', [''instagram.com'', ''instagr.am'']) \<in> set PLATFORM_PATTERNS"
    by (simp add: PLATFORM_PATTERNS_def)
  have s: "search [''instagram.com'', ''instagr.am''] ''www.instagram.com''"
    by simp
  have only: "\<forall>e\<in>set PLATFORM_PATTERNS. search (snd e) ''www.instagram.com''
                \<longrightarrow> fst e = ''instagram''"
    by (simp add: PLATFORM_PATTERNS_def)
  from detect_platform_matching_host [OF n m s] only
  have "detect_platform (\<lambda>netloc. None) ''https://www.instagram.com/p/abc/'' = Inr ''instagram''"
    by blast
  with n m s show ?thesis by blast
qed

text \<open>
  The claim as written fails where the host matches two patterns: the host
  \<^verbatim>\<open>tiktok.com.instagram.com\<close> matches the TikTok pattern and the platform returned
  is Instagram.
\<close>

theorem detect_platform_matching_host_counterexample:
  "urlparse_netloc (\<lambda>netloc. None) ''https://tiktok.com.instagram.com/video/1''
     = Inr ''tiktok.com.instagram.com''
   \<and> (''tiktok'', [''tiktok.com'', ''vm.tiktok.com'']) \<in> set PLATFORM_PATTERNS
   \<and> search [''tiktok.com'', ''vm.tiktok.com''] ''tiktok.com.instagram.com''
   \<and> detect_platform (\<lambda>netloc. None) ''https://tiktok.com.instagram.com/video/1''
     = Inr ''instagram''
   \<and> detect_platform (\<lambda>netloc. None) ''https://tiktok.com.instagram.com/video/1''
     \<noteq> Inr ''tiktok''"
proof -
  have n: "urlparse_netloc (\<lambda>netloc. None) ''https://tiktok.com.instagram.com/video/1''
             = Inr ''tiktok.com.instagram.com''"
    by (simp add: netloc_defs)
  have d: "detect_platform (\<lambda>netloc. None) ''https://tiktok.com.instagram.com/video/1''
             = Inr ''instagram''"
    by (simp add: detect_platform_def n PLATFORM_PATTERNS_def)
  show ?thesis
    by (simp add: n d) (simp add: PLATFORM_PATTERNS_def)
qed

subsection \<open>Unsupported hosts and invalid formats\<close>

text \<open>
  Claim C2. A request whose host matches no pattern, and a request whose format is
  neither mp4 nor mp3, should be answered with status 400. The body of the endpoint
  raises the \<^verbatim>\<open>HTTPException\<close> with status 400 in both cases, and the trailing
  handler turns it into status 500: evaluated at \<^verbatim>\<open>https://example.com/video\<close> with
  format mp4, and at a TikTok URL with format avi.
\<close>

theorem unsupported_request_status:
  "detect_platform chk ''https://example.com/video''
     = Inl (ValueError ''Unsupported platform for URL: https://example.com/video'')
   \<and> fst (download_media_try chk
            \<lparr>url = ''https://example.com/video'', format = Some ''mp4''\<rparr> lg)
     = Inl (HTTPException 400 ''Unsupported platform for URL: https://example.com/video'')
   \<and> http_status (fst (download_media chk
            \<lparr>url = ''https://example.com/video'', format = Some ''mp4''\<rparr> lg)) = 500
   \<and> fst (download_media_try chk
            \<lparr>url = ''https://www.tiktok.com/@user/video/123'', format = Some ''avi''\<rparr> lg)
     = Inl (HTTPException 400 ''Invalid format. Supported formats: mp4, mp3'')
   \<and> http_status (fst (download_media chk
            \<lparr>url = ''https://www.tiktok.com/@user/video/123'', format = Some ''avi''\<rparr> lg)) = 500"
proof -
  have n: "urlparse_netloc chk ''https://example.com/video'' = Inr ''example.com''"
    by (simp add: netloc_defs)
  have d: "detect_platform chk ''https://example.com/video''
             = Inl (ValueError ''Unsupported platform for URL: https://example.com/video'')"
    by (simp add: detect_platform_def n PLATFORM_PATTERNS_def)
  have l: "lower ''mp4'' = ''mp4''" "lower ''avi'' = ''avi''"
    by (simp_all add: lower_def lower_char_def ascii_lowercase_def ascii_uppercase_def)
  have t1: "fst (download_media_try chk
            \<lparr>url = ''https://example.com/video'', format = Some ''mp4''\<rparr> lg)
     = Inl (HTTPException 400 ''Unsupported platform for URL: https://example.com/video'')"
    by (simp add: download_media_try_def l d)
  have t2: "fst (download_media_try chk
            \<lparr>url = ''https://www.tiktok.com/@user/video/123'', format = Some ''avi''\<rparr> lg)
     = Inl (HTTPException 400 ''Invalid format. Supported formats: mp4, mp3'')"
    by (simp add: download_media_try_def l)
  show ?thesis
    by (simp add: d t1 t2 download_media_fst)
qed

subsection \<open>The fields of a success response\<close>

text \<open>
  Claim C3 (as amended). Every success response carries the seven keys status,
  platform, media_type, download_url, thumbnail, title and duration. The key duration
  is always present; its value is \<^verbatim>\<open>None\<close> exactly when media_type is
  \<^verbatim>\<open>image\<close>, which only the Instagram and Facebook handlers return, for a post
  (otherwise it is \<^verbatim>\<open>15s\<close> for Instagram, \<^verbatim>\<open>60s\<close> for Facebook, \<^verbatim>\<open>30s\<close> for
  TikTok, and \<^verbatim>\<open>30s\<close> or \<^verbatim>\<open>5m\<close> for YouTube). The Instagram and Facebook handlers
  return exactly the seven keys; the TikTok handler returns one more, audio_url, and
  the YouTube handler one more, available_formats. Whatever the endpoint returns on
  success has one of these three key lists, and its duration is \<^verbatim>\<open>None\<close> exactly
  when its media_type is \<^verbatim>\<open>image\<close>.
\<close>

theorem handler_response_keys:
  "keys (fst (instagram_handler u fmt lg)) =
     [''status'', ''platform'', ''media_type'', ''download_url'', ''thumbnail'', ''title'',
      ''duration'']
   \<and> keys (fst (facebook_handler u fmt lg)) =
     [''status'', ''platform'', ''media_type'', ''download_url'', ''thumbnail'', ''title'',
      ''duration'']
   \<and> keys (fst (tiktok_handler u fmt lg)) =
     [''status'', ''platform'', ''media_type'', ''download_url'', ''thumbnail'', ''title'',
      ''duration'', ''audio_url'']
   \<and> keys (fst (youtube_handler u fmt lg)) =
     [''status'', ''platform'', ''media_type'', ''download_url'', ''thumbnail'', ''title'',
      ''duration'', ''available_formats'']
   \<and> map_of (fst (instagram_handler u fmt lg)) ''media_type'' =
       Some (PStr (if instagram_content_type u = ''post'' then ''image'' else ''video''))
   \<and> map_of (fst (instagram_handler u fmt lg)) ''duration'' =
       Some (if instagram_content_type u = ''post'' then PNone else PStr ''15s'')
   \<and> map_of (fst (facebook_handler u fmt lg)) ''media_type'' =
       Some (PStr (if facebook_content_type u = ''post'' then ''image'' else ''video''))
   \<and> map_of (fst (facebook_handler u fmt lg)) ''duration'' =
       Some (if facebook_content_type u = ''post'' then PNone else PStr ''60s'')
   \<and> map_of (fst (tiktok_handler u fmt lg)) ''media_type'' = Some (PStr ''video'')
   \<and> map_of (fst (tiktok_handler u fmt lg)) ''duration'' = Some (PStr ''30s'')
   \<and> map_of (fst (youtube_handler u fmt lg)) ''media_type'' = Some (PStr ''video'')
   \<and> map_of (fst (youtube_handler u fmt lg)) ''duration'' =
       Some (PStr (if youtube_content_type u = ''short'' then ''30s'' else ''5m''))
   \<and> (fst (download_media chk req lg) = Inr r \<longrightarrow>
        keys r \<in>
          {[''status'', ''platform'', ''media_type'', ''download_url'', ''thumbnail'', ''title'',
            ''duration''],
           [''status'', ''platform'', ''media_type'', ''download_url'', ''thumbnail'', ''title'',
            ''duration'', ''audio_url''],
           [''status'', ''platform'', ''media_type'', ''download_url'', ''thumbnail'', ''title'',
            ''duration'', ''available_formats'']}
        \<and> map_of r ''duration'' \<noteq> None
        \<and> (map_of r ''duration'' = Some PNone
             \<longleftrightarrow> map_of r ''media_type'' = Some (PStr ''image'')))"
proof -
  have i: "keys (fst (instagram_handler u' fmt' lg')) =
     [''status'', ''platform'', ''media_type'', ''download_url'', ''thumbnail'', ''title'',
      ''duration'']" for u' fmt' lg'
    by (simp add: keys_def instagram_handler_def Let_def)
  have f: "keys (fst (facebook_handler u' fmt' lg')) =
     [''status'', ''platform'', ''media_type'', ''download_url'', ''thumbnail'', ''title'',
      ''duration'']" for u' fmt' lg'
    by (simp add: keys_def facebook_handler_def Let_def)
  have t: "keys (fst (tiktok_handler u' fmt' lg')) =
     [''status'', ''platform'', ''media_type'', ''download_url'', ''thumbnail'', ''title'',
      ''duration'', ''audio_url'']" for u' fmt' lg'
    by (simp add: keys_def tiktok_handler_def)
  have y: "keys (fst (youtube_handler u' fmt' lg')) =
     [''status'', ''platform'', ''media_type'', ''download_url'', ''thumbnail'', ''title'',
      ''duration'', ''available_formats'']" for u' fmt' lg'
    by (simp add: keys_def youtube_handler_def Let_def)
  have im: "map_of (fst (instagram_handler u' fmt' lg')) ''media_type'' =
       Some (PStr (if instagram_content_type u' = ''post'' then ''image'' else ''video''))"
    for u' fmt' lg'
    by (simp add: instagram_handler_def instagram_content_type_def)
  have id: "map_of (fst (instagram_handler u' fmt' lg')) ''duration'' =
       Some (if instagram_content_type u' = ''post'' then PNone else PStr ''15s'')"
    for u' fmt' lg'
    by (simp add: instagram_handler_def instagram_content_type_def)
  have fm: "map_of (fst (facebook_handler u' fmt' lg')) ''media_type'' =
       Some (PStr (if facebook_content_type u' = ''post'' then ''image'' else ''video''))"
    for u' fmt' lg'
    by (simp add: facebook_handler_def facebook_content_type_def)
  have fd: "map_of (fst (facebook_handler u' fmt' lg')) ''duration'' =
       Some (if facebook_content_type u' = ''post'' then PNone else PStr ''60s'')"
    for u' fmt' lg'
    by (simp add: facebook_handler_def facebook_content_type_def)
  have tm: "map_of (fst (tiktok_handler u' fmt' lg')) ''media_type'' = Some (PStr ''video'')"
    for u' fmt' lg'
    by (simp add: tiktok_handler_def)
  have td: "map_of (fst (tiktok_handler u' fmt' lg')) ''duration'' = Some (PStr ''30s'')"
    for u' fmt' lg'
    by (simp add: tiktok_handler_def)
  have ym: "map_of (fst (youtube_handler u' fmt' lg')) ''media_type'' = Some (PStr ''video'')"
    for u' fmt' lg'
    by (simp add: youtube_handler_def Let_def)
  have yd: "map_of (fst (youtube_handler u' fmt' lg')) ''duration'' =
       Some (PStr (if youtube_content_type u' = ''short'' then ''30s'' else ''5m''))"
    for u' fmt' lg'
    by (simp add: youtube_handler_def Let_def)
  have h: "map_of PLATFORM_HANDLERS q = Some h' \<Longrightarrow>
      h' = instagram_handler \<or> h' = tiktok_handler \<or> h' = facebook_handler
      \<or> h' = youtube_handler" for q h'
    by (auto simp: PLATFORM_HANDLERS_def split: if_splits)
  have e: "keys r \<in>
          {[''status'', ''platform'', ''media_type'', ''download_url'', ''thumbnail'', ''title'',
            ''duration''],
           [''status'', ''platform'', ''media_type'', ''download_url'', ''thumbnail'', ''title'',
            ''duration'', ''audio_url''],
           [''status'', ''platform'', ''media_type'', ''download_url'', ''thumbnail'', ''title'',
            ''duration'', ''available_formats'']}
        \<and> map_of r ''duration'' \<noteq> None
        \<and> (map_of r ''duration'' = Some PNone
             \<longleftrightarrow> map_of r ''media_type'' = Some (PStr ''image''))"
    if ok: "fst (download_media chk req lg) = Inr r"
  proof -
    from ok have "fst (download_media_try chk req lg) = Inr r"
      by (simp add: download_media_fst split: sum.splits)
    from download_media_try_Inr [OF this] obtain f' q h' where
      "map_of PLATFORM_HANDLERS q = Some h'" "r = fst (h' (url req) (lower f') lg)"
      by blast
    with h [of q h'] have
      "h' = instagram_handler \<or> h' = tiktok_handler \<or> h' = facebook_handler
        \<or> h' = youtube_handler" "r = fst (h' (url req) (lower f') lg)"
      by blast+
    then show ?thesis
      using i f t y im id fm fd tm td ym yd by (elim disjE) simp_all
  qed
  from e have s: "fst (download_media chk req lg) = Inr r \<longrightarrow>
        keys r \<in>
          {[''status'', ''platform'', ''media_type'', ''download_url'', ''thumbnail'', ''title'',
            ''duration''],
           [''status'', ''platform'', ''media_type'', ''download_url'', ''thumbnail'', ''title'',
            ''duration'', ''audio_url''],
           [''status'', ''platform'', ''media_type'', ''download_url'', ''thumbnail'', ''title'',
            ''duration'', ''available_formats'']}
        \<and> map_of r ''duration'' \<noteq> None
        \<and> (map_of r ''duration'' = Some PNone
             \<longleftrightarrow> map_of r ''media_type'' = Some (PStr ''image''))"
    by (rule impI)
  show ?thesis
    by (intro conjI) (fact i f t y im id fm fd tm td ym yd s)+
qed

theorem handler_response_keys_witness:
  "fst (download_media (\<lambda>netloc. None)
         \<lparr>url = ''https://www.facebook.com/user/posts/1'', format = Some ''mp4''\<rparr> []) =
     Inr [(''status'', PStr ''success''),
          (''platform'', PStr ''Facebook''),
          (''media_type'', PStr ''image''),
          (''download_url'', PStr ''https://api.example.com/downloads/facebook/post.mp4''),
          (''thumbnail'', PStr ''https://api.example.com/thumbnails/facebook_thumbnail.jpg''),
          (''title'', PStr ''Facebook Post''),
          (''duration'', PNone)]
   \<and> keys [(''status'', PStr ''success''),
          (''platform'', PStr ''Facebook''),
          (''media_type'', PStr ''image''),
          (''download_url'', PStr ''https://api.example.com/downloads/facebook/post.mp4''),
          (''thumbnail'', PStr ''https://api.example.com/thumbnails/facebook_thumbnail.jpg''),
          (''title'', PStr ''Facebook Post''),
          (''duration'', PNone)]
     \<in> {[''status'', ''platform'', ''media_type'', ''download_url'', ''thumbnail'', ''title'',
            ''duration''],
           [''status'', ''platform'', ''media_type'', ''download_url'', ''thumbnail'', ''title'',
            ''duration'', ''audio_url''],
           [''status'', ''platform'', ''media_type'', ''download_url'', ''thumbnail'', ''title'',
            ''duration'', ''available_formats'']}
   \<and> instagram_content_type ''https://www.instagram.com/p/abc/'' = ''post''
   \<and> map_of (fst (instagram_handler ''https://www.instagram.com/p/abc/'' ''mp4'' []))
        ''media_type'' = Some (PStr ''image'')
   \<and> map_of (fst (instagram_handler ''https://www.instagram.com/p/abc/'' ''mp4'' []))
        ''duration'' = Some PNone
   \<and> instagram_content_type ''https://www.instagram.com/reel/abc/'' = ''reel''
   \<and> map_of (fst (instagram_handler ''https://www.instagram.com/reel/abc/'' ''mp4'' []))
        ''media_type'' = Some (PStr ''video'')
   \<and> map_of (fst (instagram_handler ''https://www.instagram.com/reel/abc/'' ''mp4'' []))
        ''duration'' = Some (PStr ''15s'')"
proof -
  have n: "urlparse_netloc (\<lambda>netloc. None) ''https://www.facebook.com/user/posts/1''
             = Inr ''www.facebook.com''"
    by (simp add: netloc_defs)
  have d: "detect_platform (\<lambda>netloc. None) ''https://www.facebook.com/user/posts/1''
             = Inr ''facebook''"
    by (simp add: detect_platform_def n PLATFORM_PATTERNS_def)
  have l: "lower ''mp4'' = ''mp4''"
    by (simp add: lower_def lower_char_def ascii_lowercase_def ascii_uppercase_def)
  have r: "fst (download_media (\<lambda>netloc. None)
         \<lparr>url = ''https://www.facebook.com/user/posts/1'', format = Some ''mp4''\<rparr> []) =
     Inr [(''status'', PStr ''success''),
          (''platform'', PStr ''Facebook''),
          (''media_type'', PStr ''image''),
          (''download_url'', PStr ''https://api.example.com/downloads/facebook/post.mp4''),
          (''thumbnail'', PStr ''https://api.example.com/thumbnails/facebook_thumbnail.jpg''),
          (''title'', PStr ''Facebook Post''),
          (''duration'', PNone)]"
    by (simp add: d l download_media_fst download_media_try_def PLATFORM_HANDLERS_def
        handler_defs)
  have p: "instagram_content_type ''https://www.instagram.com/p/abc/'' = ''post''"
    by (simp add: instagram_content_type_def)
  have q: "instagram_content_type ''https://www.instagram.com/reel/abc/'' = ''reel''"
    by (simp add: instagram_content_type_def)
  from handler_response_keys [of "''https://www.instagram.com/p/abc/''" "''mp4''" "[]"
      "\<lambda>netloc. None"
      "\<lparr>url = ''https://www.facebook.com/user/posts/1'', format = Some ''mp4''\<rparr>"]
    handler_response_keys [of "''https://www.instagram.com/reel/abc/''" "''mp4''" "[]"]
    r p q
  show ?thesis by simp
qed

text \<open>
  The claim as written fails for the TikTok and YouTube handlers, which return a key
  outside the seven.
\<close>

theorem handler_response_keys_counterexample:
  "''audio_url'' \<in> set (keys (fst (tiktok_handler
       ''https://www.tiktok.com/@user/video/123'' ''mp4'' [])))
   \<and> ''available_formats'' \<in> set (keys (fst (youtube_handler
       ''https://www.youtube.com/watch?v=abc'' ''mp4'' [])))
   \<and> ''audio_url'' \<notin> set [''status'', ''platform'', ''media_type'', ''download_url'',
       ''thumbnail'', ''title'', ''duration'']
   \<and> ''available_formats'' \<notin> set [''status'', ''platform'', ''media_type'', ''download_url'',
       ''thumbnail'', ''title'', ''duration'']"
  by (simp add: keys_def tiktok_handler_def youtube_handler_def Let_def)

subsection \<open>Overlapping patterns and the order of the table\<close>

text \<open>
  Claim C4 (as amended). The patterns are searched anywhere in the host, so they are
  not mutually exclusive on every host string. They are on the nine domains the table
  lists: each is matched by the pattern of its own platform only. For every host that
  the pattern of at most one platform matches, the loop of \<^verbatim>\<open>detect_platform\<close>
  returns the same platform for every table with the same entries, whatever their
  order; where several match, the first in the table's order wins.
\<close>

theorem first_match_order:
  "(\<forall>e\<in>set PLATFORM_PATTERNS. \<forall>alt\<in>set (snd e). \<forall>e'\<in>set PLATFORM_PATTERNS.
       search (snd e') alt \<longrightarrow> e' = e)
   \<and> (set tbl = set PLATFORM_PATTERNS \<longrightarrow>
        (\<forall>e\<in>set PLATFORM_PATTERNS. \<forall>e'\<in>set PLATFORM_PATTERNS.
           search (snd e) d \<longrightarrow> search (snd e') d \<longrightarrow> e = e') \<longrightarrow>
        first_match tbl d = first_match PLATFORM_PATTERNS d)"
proof -
  have listed: "\<forall>e\<in>set PLATFORM_PATTERNS. \<forall>alt\<in>set (snd e). \<forall>e'\<in>set PLATFORM_PATTERNS.
       search (snd e') alt \<longrightarrow> e' = e"
    by (simp add: PLATFORM_PATTERNS_def)
  have order: "first_match tbl d = first_match PLATFORM_PATTERNS d"
    if same: "set tbl = set PLATFORM_PATTERNS"
      and one: "\<forall>e\<in>set PLATFORM_PATTERNS. \<forall>e'\<in>set PLATFORM_PATTERNS.
           search (snd e) d \<longrightarrow> search (snd e') d \<longrightarrow> e = e'"
  proof (cases "first_match PLATFORM_PATTERNS d")
    case None
    then have "\<forall>e\<in>set tbl. \<not> search (snd e) d"
      using same by (simp add: first_match_None_iff)
    then have "first_match tbl d = None"
      by (simp add: first_match_None_iff)
    with None show ?thesis by simp
  next
    case (Some q)
    then obtain pat where q: "(q, pat) \<in> set PLATFORM_PATTERNS" "search pat d"
      using first_match_Some_mem by blast
    then have "\<exists>e\<in>set tbl. search (snd e) d"
      using same by force
    then have "first_match tbl d \<noteq> None"
      by (simp add: first_match_None_iff)
    then obtain q' where q': "first_match tbl d = Some q'" by blast
    then obtain pat' where "(q', pat') \<in> set tbl" "search pat' d"
      using first_match_Some_mem by blast
    with same have "(q', pat') \<in> set PLATFORM_PATTERNS" "search pat' d" by simp_all
    with q one have "(q', pat') = (q, pat)" by force
    with q' Some show ?thesis by simp
  qed
  from listed order show ?thesis by blast
qed

theorem first_match_order_witness:
  "set (rev PLATFORM_PATTERNS) = set PLATFORM_PATTERNS
   \<and> first_match PLATFORM_PATTERNS ''www.youtube.com'' = Some ''youtube''
   \<and> first_match (rev PLATFORM_PATTERNS) ''www.youtube.com'' = Some ''youtube''"
proof -
  have one: "\<forall>e\<in>set PLATFORM_PATTERNS. \<forall>e'\<in>set PLATFORM_PATTERNS.
           search (snd e) ''www.youtube.com'' \<longrightarrow> search (snd e') ''www.youtube.com''
           \<longrightarrow> e = e'"
    by (simp add: PLATFORM_PATTERNS_def)
  have y: "first_match PLATFORM_PATTERNS ''www.youtube.com'' = Some ''youtube''"
    by (simp add: PLATFORM_PATTERNS_def)
  have "first_match (rev PLATFORM_PATTERNS) ''www.youtube.com''
          = first_match PLATFORM_PATTERNS ''www.youtube.com''"
    using first_match_order [of "rev PLATFORM_PATTERNS" "''www.youtube.com''"] one
    by simp
  with y show ?thesis by simp
qed

text \<open>
  The claim as written fails at the host \<^verbatim>\<open>instagram.com.tiktok.com\<close>: the patterns
  of Instagram and of TikTok both match it, and the platform returned changes with the
  order of the table.
\<close>

theorem first_match_order_counterexample:
  "map_of PLATFORM_PATTERNS ''instagram'' = Some [''instagram.com'', ''instagr.am'']
   \<and> map_of PLATFORM_PATTERNS ''tiktok'' = Some [''tiktok.com'', ''vm.tiktok.com'']
   \<and> search [''instagram.com'', ''instagr.am''] ''instagram.com.tiktok.com''
   \<and> search [''tiktok.com'', ''vm.tiktok.com''] ''instagram.com.tiktok.com''
   \<and> first_match PLATFORM_PATTERNS ''instagram.com.tiktok.com'' = Some ''instagram''
   \<and> first_match (rev PLATFORM_PATTERNS) ''instagram.com.tiktok.com'' = Some ''tiktok''"
  by (simp add: PLATFORM_PATTERNS_def)

subsection \<open>The content type of an Instagram URL\<close>

text \<open>
  Claim C5 (as amended). For every URL that contains neither \<^verbatim>\<open>reel\<close> nor
  \<^verbatim>\<open>p/\<close>, the Instagram handler does not fail and takes the content type to be
  \<^verbatim>\<open>story\<close>: the response is a video titled \<^verbatim>\<open>Instagram Story\<close> with duration
  \<^verbatim>\<open>15s\<close>.
\<close>

theorem instagram_default_content_type:
  assumes "\<not> py_in ''reel'' u" and "\<not> py_in ''p/'' u"
  shows "instagram_content_type u = ''story''
       \<and> fst (instagram_handler u fmt lg) =
           [(''status'', PStr ''success''),
            (''platform'', PStr ''Instagram''),
            (''media_type'', PStr ''video''),
            (''download_url'',
               PStr (''https://api.example.com/downloads/instagram/story_processed.'' @ fmt)),
            (''thumbnail'', PStr ''https://api.example.com/thumbnails/instagram_thumbnail.jpg''),
            (''title'', PStr ''Instagram Story''),
            (''duration'', PStr ''15s'')]"
proof -
  from assms have c: "instagram_content_type u = ''story''"
    by (simp add: instagram_content_type_def)
  have t: "capitalize ''story'' = ''Story''"
    by (simp add: capitalize_def upper_char_def lower_char_def ascii_lowercase_def
        ascii_uppercase_def)
  show ?thesis
    by (simp add: c t instagram_handler_def)
qed

theorem instagram_default_content_type_witness:
  "\<not> py_in ''reel'' ''https://www.instagram.com/tv/abc/''
   \<and> \<not> py_in ''p/'' ''https://www.instagram.com/tv/abc/''
   \<and> detect_platform (\<lambda>netloc. None) ''https://www.instagram.com/tv/abc/'' = Inr ''instagram''
   \<and> instagram_content_type ''https://www.instagram.com/tv/abc/'' = ''story''
   \<and> map_of (fst (instagram_handler ''https://www.instagram.com/tv/abc/'' ''mp4'' []))
        ''title'' = Some (PStr ''Instagram Story'')"
proof -
  have r: "\<not> py_in ''reel'' ''https://www.instagram.com/tv/abc/''"
    by simp
  have p: "\<not> py_in ''p/'' ''https://www.instagram.com/tv/abc/''"
    by simp
  have n: "urlparse_netloc (\<lambda>netloc. None) ''https://www.instagram.com/tv/abc/''
             = Inr ''www.instagram.com''"
    by (simp add: netloc_defs)
  have d: "detect_platform (\<lambda>netloc. None) ''https://www.instagram.com/tv/abc/''
             = Inr ''instagram''"
    by (simp add: detect_platform_def n PLATFORM_PATTERNS_def)
  from instagram_default_content_type [OF r p, of "''mp4''" "[]"] r p d
  show ?thesis by simp
qed

text \<open>
  The claim as written fails at \<^verbatim>\<open>https://www.instagram.com/explore/\<close>, an
  Instagram URL with neither marker: the content type is \<^verbatim>\<open>story\<close>, not
  \<^verbatim>\<open>post\<close>.
\<close>

theorem instagram_default_content_type_counterexample:
  "detect_platform (\<lambda>netloc. None) ''https://www.instagram.com/explore/'' = Inr ''instagram''
   \<and> \<not> py_in ''reel'' ''https://www.instagram.com/explore/''
   \<and> \<not> py_in ''p/'' ''https://www.instagram.com/explore/''
   \<and> instagram_content_type ''https://www.instagram.com/explore/'' = ''story''
   \<and> instagram_content_type ''https://www.instagram.com/explore/'' \<noteq> ''post''"
proof -
  have n: "urlparse_netloc (\<lambda>netloc. None) ''https://www.instagram.com/explore/''
             = Inr ''www.instagram.com''"
    by (simp add: netloc_defs)
  have d: "detect_platform (\<lambda>netloc. None) ''https://www.instagram.com/explore/''
             = Inr ''instagram''"
    by (simp add: detect_platform_def n PLATFORM_PATTERNS_def)
  show ?thesis
    by (simp add: d instagram_content_type_def)
qed

subsection \<open>Determinism\<close>

text \<open>
  Claim C6. The result of a resolution is a function of the URL and the format alone.
  The logger is the only state the pipeline touches, and the result does not depend on
  it: the endpoint returns the same result from any two logger states, the handler
  dispatched for a detected platform returns the same dictionary from any two logger
  states, and a second run of the endpoint right after the first returns what the
  first returned.
\<close>

theorem resolution_deterministic:
  "fst (download_media chk req lg1) = fst (download_media chk req lg2)
   \<and> (detect_platform chk u = Inr p \<longrightarrow> map_of PLATFORM_HANDLERS p = Some h \<longrightarrow>
        fst (h u fmt lg1) = fst (h u fmt lg2))
   \<and> fst (download_media chk req (snd (download_media chk req lg1)))
       = fst (download_media chk req lg1)"
proof -
  have e: "fst (download_media chk req a) = fst (download_media chk req b)" for a b
    by (simp add: download_media_fst download_media_try_indep [of chk req a b])
  have "map_of PLATFORM_HANDLERS p = Some h \<longrightarrow> fst (h u fmt lg1) = fst (h u fmt lg2)"
    using handler_result_indep [of p h u fmt lg1 lg2] by blast
  with e [of lg1 lg2] e [of "snd (download_media chk req lg1)" lg1]
  show ?thesis by blast
qed

theorem resolution_deterministic_witness:
  "detect_platform (\<lambda>netloc. None) ''https://youtu.be/abc'' = Inr ''youtube''
   \<and> map_of PLATFORM_HANDLERS ''youtube'' = Some youtube_handler
   \<and> fst (youtube_handler ''https://youtu.be/abc'' ''mp3'' [])
       = fst (youtube_handler ''https://youtu.be/abc'' ''mp3''
                [INFO ''Processing YouTube URL: https://youtu.be/abc''])"
proof -
  have n: "urlparse_netloc (\<lambda>netloc. None) ''https://youtu.be/abc'' = Inr ''youtu.be''"
    by (simp add: netloc_defs)
  have d: "detect_platform (\<lambda>netloc. None) ''https://youtu.be/abc'' = Inr ''youtube''"
    by (simp add: detect_platform_def n PLATFORM_PATTERNS_def)
  have m: "map_of PLATFORM_HANDLERS ''youtube'' = Some youtube_handler"
    by (simp add: PLATFORM_HANDLERS_def)
  from resolution_deterministic [of "\<lambda>netloc. None" _ "[]"
      "[INFO ''Processing YouTube URL: https://youtu.be/abc'']"
      "''https://youtu.be/abc''" "''youtube''" youtube_handler "''mp3''"] d m
  show ?thesis by blast
qed

subsection \<open>Failures of the endpoint\<close>

text \<open>
  Claim C9. Every failure raised inside the body of \<^verbatim>\<open>download_media\<close> reaches
  the caller with status 500. An invalid format and a failed detection raise an
  \<^verbatim>\<open>HTTPException\<close> with status 400 inside the body; whatever the body raises, the
  endpoint raises an \<^verbatim>\<open>HTTPException\<close> with status 500 whose detail quotes it. So
  the status of the response is 200 or 500, never 400 or 501.
\<close>

theorem download_media_failure_status:
  "(DownloadRequest.format req = Some f \<longrightarrow> lower f \<notin> set [''mp4'', ''mp3''] \<longrightarrow>
      fst (download_media_try chk req lg)
        = Inl (HTTPException 400 ''Invalid format. Supported formats: mp4, mp3''))
   \<and> (DownloadRequest.format req = Some f \<longrightarrow> lower f \<in> set [''mp4'', ''mp3''] \<longrightarrow>
      detect_platform chk (url req) = Inl (ValueError msg) \<longrightarrow>
      fst (download_media_try chk req lg) = Inl (HTTPException 400 msg))
   \<and> (fst (download_media_try chk req lg) = Inl e \<longrightarrow>
      fst (download_media chk req lg)
        = Inl (HTTPException 500 (''Error processing request: '' @ str_exc e)))
   \<and> (\<forall>e'. fst (download_media chk req lg) = Inl e' \<longrightarrow> http_status (Inl e') = 500)
   \<and> http_status (fst (download_media chk req lg)) \<in> {200, 500}
   \<and> http_status (fst (download_media chk req lg)) \<noteq> 400
   \<and> http_status (fst (download_media chk req lg)) \<noteq> 501"
proof -
  have a: "DownloadRequest.format req = Some f \<longrightarrow> lower f \<notin> set [''mp4'', ''mp3''] \<longrightarrow>
      fst (download_media_try chk req lg)
        = Inl (HTTPException 400 ''Invalid format. Supported formats: mp4, mp3'')"
    by (simp add: download_media_try_def Let_def)
  have b: "DownloadRequest.format req = Some f \<longrightarrow> lower f \<in> set [''mp4'', ''mp3''] \<longrightarrow>
      detect_platform chk (url req) = Inl (ValueError msg) \<longrightarrow>
      fst (download_media_try chk req lg) = Inl (HTTPException 400 msg)"
    by (simp add: download_media_try_def Let_def del: set_simps)
  have c: "fst (download_media_try chk req lg) = Inl e \<longrightarrow>
      fst (download_media chk req lg)
        = Inl (HTTPException 500 (''Error processing request: '' @ str_exc e))"
    by (simp add: download_media_fst)
  have s: "http_status (fst (download_media chk req lg)) \<in> {200, 500}"
    by (cases "fst (download_media_try chk req lg)") (simp_all add: download_media_fst)
  have d: "\<forall>e'. fst (download_media chk req lg) = Inl e' \<longrightarrow> http_status (Inl e') = 500"
    by (cases "fst (download_media_try chk req lg)") (auto simp: download_media_fst)
  from s have "http_status (fst (download_media chk req lg)) \<noteq> 400"
    "http_status (fst (download_media chk req lg)) \<noteq> 501"
    by auto
  with a b c d s show ?thesis by blast
qed

theorem download_media_failure_status_witness:
  "DownloadRequest.format \<lparr>url = ''https://www.youtube.com/watch?v=abc'', format = Some ''WebM''\<rparr>
     = Some ''WebM''
   \<and> lower ''WebM'' \<notin> set [''mp4'', ''mp3'']
   \<and> fst (download_media_try (\<lambda>netloc. None)
        \<lparr>url = ''https://www.youtube.com/watch?v=abc'', format = Some ''WebM''\<rparr> [])
       = Inl (HTTPException 400 ''Invalid format. Supported formats: mp4, mp3'')
   \<and> fst (download_media (\<lambda>netloc. None)
        \<lparr>url = ''https://www.youtube.com/watch?v=abc'', format = Some ''WebM''\<rparr> [])
       = Inl (HTTPException 500
           ''Error processing request: 400: Invalid format. Supported formats: mp4, mp3'')
   \<and> http_status (fst (download_media (\<lambda>netloc. None)
        \<lparr>url = ''https://www.youtube.com/watch?v=abc'', format = Some ''WebM''\<rparr> [])) = 500"
proof -
  have l: "lower ''WebM'' = ''webm''"
    by (simp add: lower_def lower_char_def ascii_lowercase_def ascii_uppercase_def)
  have s: "str_nat 400 = ''400''"
    by code_simp
  from download_media_failure_status [of
      "\<lparr>url = ''https://www.youtube.com/watch?v=abc'', format = Some ''WebM''\<rparr>"
      "''WebM''" "\<lambda>netloc. None" "[]" _
      "HTTPException 400 ''Invalid format. Supported formats: mp4, mp3''"]
  show ?thesis
    by (simp add: l s)
qed

subsection \<open>The handler of a detected platform\<close>

text \<open>
  Claim C10. Every platform that \<^verbatim>\<open>detect_platform\<close> returns is one of instagram,
  tiktok, facebook and youtube, and each is a key of \<^verbatim>\<open>PLATFORM_HANDLERS\<close>: the
  lookup never returns \<^verbatim>\<open>None\<close>, and the body of the endpoint never raises the
  \<^verbatim>\<open>HTTPException\<close> with status 501.
\<close>

theorem handler_always_found:
  "(detect_platform chk u = Inr p \<longrightarrow>
      p \<in> {''instagram'', ''tiktok'', ''facebook'', ''youtube''}
      \<and> map_of PLATFORM_HANDLERS p \<noteq> None)
   \<and> (\<forall>detail. fst (download_media_try chk req lg) \<noteq> Inl (HTTPException 501 detail))"
proof -
  have found: "q \<in> {''instagram'', ''tiktok'', ''facebook'', ''youtube''}
      \<and> map_of PLATFORM_HANDLERS q \<noteq> None" if "detect_platform chk v = Inr q" for v q
  proof -
    from that obtain d where "first_match PLATFORM_PATTERNS d = Some q"
      by (auto simp: detect_platform_Inr)
    then have "q \<in> {''instagram'', ''tiktok'', ''facebook'', ''youtube''}"
      by (rule first_match_platforms)
    with handlers_of_platform [OF this] show ?thesis by simp
  qed
  have never: "fst (download_media_try chk req lg) \<noteq> Inl (HTTPException 501 detail)"
    for detail
  proof (cases "detect_platform chk (url req)")
    case (Inl e)
    then show ?thesis
      by (cases e)
        (auto simp: download_media_try_def Let_def detect_platform_def urlparse_netloc_def
          split: option.splits sum.splits if_splits)
  next
    case (Inr q)
    with found [OF Inr] show ?thesis
      by (auto simp: download_media_try_def Let_def split: option.splits prod.splits)
  qed
  from found [of u p] never show ?thesis by blast
qed

theorem handler_always_found_witness:
  "detect_platform (\<lambda>netloc. None) ''https://fb.watch/abc/'' = Inr ''facebook''
   \<and> ''facebook'' \<in> {''instagram'', ''tiktok'', ''facebook'', ''youtube''}
   \<and> map_of PLATFORM_HANDLERS ''facebook'' \<noteq> None"
proof -
  have n: "urlparse_netloc (\<lambda>netloc. None) ''https://fb.watch/abc/'' = Inr ''fb.watch''"
    by (simp add: netloc_defs)
  have d: "detect_platform (\<lambda>netloc. None) ''https://fb.watch/abc/'' = Inr ''facebook''"
    by (simp add: detect_platform_def n PLATFORM_PATTERNS_def)
  from handler_always_found [of "\<lambda>netloc. None" "''https://fb.watch/abc/''" "''facebook''"] d
  show ?thesis by blast
qed

end
